theory Spec2Isabelle
  imports Main
begin

section \<open>Strings\<close>

text \<open>
  Python strings are sequences of code points. The model uses \<^typ>\<open>string\<close> and reads each
  \<^typ>\<open>char\<close> as the code point of the same number, so it covers the code points below 256.
  \<open>str.lower()\<close> on these maps \<open>A\<close>..\<open>Z\<close> and the Latin-1 capitals (192..214 and
  216..222) to the code point 32 above, and leaves every other one alone.
\<close>

definition chr_lower :: "char \<Rightarrow> char" where
  "chr_lower c =
     (let n = (of_char c :: nat)
      in if (65 \<le> n \<and> n \<le> 90) \<or> (192 \<le> n \<and> n \<le> 214) \<or> (216 \<le> n \<and> n \<le> 222)
         then char_of (n + 32) else c)"

definition lower :: "string \<Rightarrow> string" where
  "lower s = map chr_lower s"

text \<open>\<open>s.rfind(c)\<close>: the highest index at which \<open>c\<close> occurs, or \<open>-1\<close>.\<close>

fun rfind :: "string \<Rightarrow> char \<Rightarrow> int" where
  "rfind [] c = -1"
| "rfind (x # xs) c =
     (let r = rfind xs c
      in if r \<noteq> -1 then r + 1 else if x = c then 0 else -1)"

text \<open>\<open>sep.join(xs)\<close>.\<close>

fun join :: "string \<Rightarrow> string list \<Rightarrow> string" where
  "join sep [] = []"
| "join sep [x] = x"
| "join sep (x # y # ys) = x @ sep @ join sep (y # ys)"

text \<open>\<open>s.split(sep)\<close> for a one-character separator: the pieces between the separators,
  empty pieces included.\<close>

fun split :: "char \<Rightarrow> string \<Rightarrow> string list" where
  "split sep [] = [[]]"
| "split sep (c # cs) =
     (if c = sep then [] # split sep cs
      else (case split sep cs of
              [] \<Rightarrow> [[c]]
            | p # ps \<Rightarrow> (c # p) # ps))"

section \<open>Errors\<close>

text \<open>
  Every exception the program can raise is a value. The operating system's failures
  (\<open>OSError\<close> and its subclasses) are what listing a directory or launching a process can
  raise; \<open>UnicodeDecodeError\<close> is what \<open>subprocess.run\<close> raises when the captured output of
  a finished process is not text; \<open>RuntimeError\<close> carries the arguments it was raised
  with.
\<close>

datatype os_error = FileNotFoundError | NotADirectoryError | PermissionError

datatype error =
    OSError os_error
  | JSONDecodeError
  | KeyError string
  | TypeError
  | IndexError
  | UnicodeDecodeError
  | RuntimeError "string list"

section \<open>Paths\<close>

text \<open>
  A \<open>pathlib\<close> path of the POSIX flavour, as \<open>pathlib\<close> keeps it after parsing: the root
  (\<open>''''\<close>, \<open>''/''\<close> or \<open>''//''\<close>) and the list of the components after it.
\<close>

record path =
  root :: string
  tail :: "string list"

text \<open>\<open>posixpath.splitroot\<close>: one leading slash is the root, and exactly two leading
  slashes are a root of their own.\<close>

definition splitroot :: "string \<Rightarrow> string \<times> string" where
  "splitroot p =
     (if take 1 p = ''/''
      then (if take 1 (drop 1 p) = ''/'' \<and> take 1 (drop 2 p) \<noteq> ''/''
            then (''//'', drop 2 p) else (''/'', drop 1 p))
      else ('''', p))"

text \<open>\<open>Path(s)\<close>: empty components and \<open>.\<close> are dropped.\<close>

definition Path :: "string \<Rightarrow> path" where
  "Path s =
     (if s = [] then \<lparr>root = '''', tail = []\<rparr>
      else (let (r, rel) = splitroot s
            in \<lparr>root = r, tail = filter (\<lambda>x. x \<noteq> [] \<and> x \<noteq> ''.'') (split CHR ''/'' rel)\<rparr>))"

text \<open>\<open>str(p)\<close>.\<close>

definition str :: "path \<Rightarrow> string" where
  "str p = (let s = root p @ join ''/'' (tail p) in if s = [] then ''.'' else s)"

text \<open>\<open>p.parts\<close>: the root, when there is one, then the components.\<close>

definition parts :: "path \<Rightarrow> string list" where
  "parts p = (if root p = [] then tail p else root p # tail p)"

text \<open>\<open>p.name\<close>: the last component, or the empty string.\<close>

definition name :: "path \<Rightarrow> string" where
  "name p = (if tail p = [] then [] else last (tail p))"

text \<open>\<open>p.suffix\<close> (pathlib up to Python 3.13): the name from its last dot on, when that dot
  is neither the first nor the last character.\<close>

definition suffix :: "path \<Rightarrow> string" where
  "suffix p =
     (let nm = name p; i = rfind nm CHR ''.''
      in if 0 < i \<and> i < int (length nm) - 1 then drop (nat i) nm else [])"

text \<open>\<open>p / q\<close> for two paths: a rooted right operand replaces the left one.\<close>

definition truediv :: "path \<Rightarrow> path \<Rightarrow> path" where
  "truediv p q = (if root q \<noteq> [] then q else \<lparr>root = root p, tail = tail p @ tail q\<rparr>)"

text \<open>\<open>p / s\<close> for a string: the string is parsed first.\<close>

definition truediv_str :: "path \<Rightarrow> string \<Rightarrow> path" where
  "truediv_str p s = truediv p (Path s)"

text \<open>\<open>xs[-1]\<close>.\<close>

definition last_item :: "'a list \<Rightarrow> error + 'a" where
  "last_item xs = (if xs = [] then Inl IndexError else Inr (last xs))"

section \<open>Command vectors\<close>

definition FFMPEG_INSPECT_COMMAND_HEAD :: "string list" where
  "FFMPEG_INSPECT_COMMAND_HEAD =
     [''ffprobe'', ''-v'', ''error'', ''-show_entries'',
      ''stream=index,codec_type:stream_tags=language'', ''-of'', ''json'']"

definition FFMPEG_REMOVE_HUN_AUDIO_COMMAND_P1 :: "string list" where
  "FFMPEG_REMOVE_HUN_AUDIO_COMMAND_P1 = [''ffmpeg'', ''-i'']"

definition FFMPEG_REMOVE_HUN_AUDIO_COMMAND_P2 :: "string list" where
  "FFMPEG_REMOVE_HUN_AUDIO_COMMAND_P2 =
     [''-map'', ''0:v'',
      ''-map'', ''0:s'',
      ''-map'', ''-0:a:0'',
      ''-map'', ''0:a:1'',
      ''-c:v'', ''copy'',
      ''-c:a'', ''copy'',
      ''-c:s'', ''copy'']"

text \<open>The argument vector of \<open>get_file_data\<close>.\<close>

definition ffprobe_command :: "path \<Rightarrow> string list" where
  "ffprobe_command video_file = FFMPEG_INSPECT_COMMAND_HEAD @ [str video_file]"

text \<open>
  The two assignments at the head of the loop of \<open>remove_hun_audio_from_files\<close>: the
  output path \<open>target_dir / video_file.parts[-1]\<close>, where \<open>parts[-1]\<close> raises
  \<open>IndexError\<close> on a path without parts, and the argument vector.
\<close>

definition command :: "path \<Rightarrow> path \<Rightarrow> error + string list" where
  "command video_file target_dir =
     (case last_item (parts video_file) of
        Inl e \<Rightarrow> Inl e
      | Inr p \<Rightarrow>
          (let output_file_path = str (truediv_str target_dir p)
           in Inr (FFMPEG_REMOVE_HUN_AUDIO_COMMAND_P1 @ [str video_file]
                     @ FFMPEG_REMOVE_HUN_AUDIO_COMMAND_P2 @ [output_file_path])))"

text \<open>
  What \<open>pathlib\<close> keeps as one component of a path, and what a directory listing yields as
  a name: a text that is not empty, is not \<open>.\<close> and has no slash.
\<close>

definition component :: "string \<Rightarrow> bool" where
  "component c = (c \<noteq> [] \<and> c \<noteq> ''.'' \<and> CHR ''/'' \<notin> set c)"

section \<open>The world outside the program\<close>

text \<open>
  What the operating system finds at the text of a path: nothing, a file, or a directory
  with the names of its direct children in the order the listing yields them.
\<close>

datatype entry = File | Dir "string list"

type_synonym filesystem = "string \<Rightarrow> entry option"

text \<open>The result of a finished process, as \<open>subprocess.run\<close> returns it with
  \<open>capture_output=True, text=True\<close>.\<close>

record CommandResult =
  returncode :: int
  stdout :: string
  stderr :: string

text \<open>
  The two ways in which \<open>subprocess.run\<close> raises instead of returning: the executable
  could not be launched at all, or the process ran and finished with an exit code, but
  what it wrote to its standard output or standard error could not be decoded as text
  (\<open>text=True\<close> decodes both, strictly, after the process has ended).
\<close>

datatype run_failure = Not_launched os_error | Undecodable int

fun raised :: "run_failure \<Rightarrow> error" where
  "raised (Not_launched oe) = OSError oe"
| "raised (Undecodable code) = UnicodeDecodeError"

text \<open>
  The process runner: what running an argument vector gives, when that run is the
  \<open>n\<close>-th one of the program (counted from 0): a failure as above, or the result.
\<close>

type_synonym runner = "nat \<Rightarrow> string list \<Rightarrow> run_failure + CommandResult"

text \<open>The exit code of the process of a run, when a process was launched.\<close>

fun exit_code :: "run_failure + CommandResult \<Rightarrow> int option" where
  "exit_code (Inr r) = Some (returncode r)"
| "exit_code (Inl (Undecodable code)) = Some code"
| "exit_code (Inl (Not_launched oe)) = None"

text \<open>One constructor for each \<open>print\<close> of the program, with the values it interpolates.\<close>

datatype log_line =
    Removing string
  | Command_arguments "string list"
  | Process_failed string
  | Removed string

text \<open>
  The effects of a run so far: the value of \<open>os.environ['PATH']\<close>, the directories listed,
  the argument vectors handed to the runner, and the lines printed, each in order.
\<close>

record state =
  environ_PATH :: "string option"
  listed :: "string list"
  run_calls :: "string list list"
  printed :: "log_line list"

definition print :: "log_line \<Rightarrow> state \<Rightarrow> state" where
  "print l s = s\<lparr>printed := printed s @ [l]\<rparr>"

definition subprocess_run ::
  "runner \<Rightarrow> string list \<Rightarrow> state \<Rightarrow> (run_failure + CommandResult) \<times> state" where
  "subprocess_run run cmd s = (run (length (run_calls s)) cmd, s\<lparr>run_calls := run_calls s @ [cmd]\<rparr>)"

text \<open>\<open>p.iterdir()\<close>: the children of \<open>p\<close>, each the path \<open>p\<close> with one more component.\<close>

definition iterdir :: "filesystem \<Rightarrow> path \<Rightarrow> state \<Rightarrow> (error + path list) \<times> state" where
  "iterdir fs p s =
     (case fs (str p) of
        None \<Rightarrow> Inl (OSError FileNotFoundError)
      | Some File \<Rightarrow> Inl (OSError NotADirectoryError)
      | Some (Dir names) \<Rightarrow> Inr (map (\<lambda>n. p\<lparr>tail := tail p @ [n]\<rparr>) names),
      s\<lparr>listed := listed s @ [str p]\<rparr>)"

section \<open>The file enumerator\<close>

definition get_video_files_from_path ::
  "filesystem \<Rightarrow> path \<Rightarrow> string \<Rightarrow> state \<Rightarrow> (error + path list) \<times> state" where
  "get_video_files_from_path fs dir_path extension s =
     (case iterdir fs dir_path s of
        (Inl e, s') \<Rightarrow> (Inl e, s')
      | (Inr files, s') \<Rightarrow>
          (Inr (map (truediv dir_path)
                  (filter (\<lambda>file. lower (suffix file) = ''.'' @ extension) files)), s'))"

text \<open>
  The enumeration as the specification words it: the direct children of the directory
  whose extension equals \<open>.\<close> followed by the filter, both sides compared without regard
  to case, each child as its own path.
\<close>

definition spec_video_files ::
  "filesystem \<Rightarrow> path \<Rightarrow> string \<Rightarrow> state \<Rightarrow> (error + path list) \<times> state" where
  "spec_video_files fs dir_path extension s =
     (case iterdir fs dir_path s of
        (Inl e, s') \<Rightarrow> (Inl e, s')
      | (Inr files, s') \<Rightarrow>
          (Inr (filter (\<lambda>file. lower (suffix file) = lower (''.'' @ extension)) files), s'))"

section \<open>The batch\<close>

fun remove_hun_audio_from_files ::
  "runner \<Rightarrow> path list \<Rightarrow> path \<Rightarrow> state \<Rightarrow> (error + unit) \<times> state" where
  "remove_hun_audio_from_files run [] target_dir s = (Inr (), s)"
| "remove_hun_audio_from_files run (video_file # rest) target_dir s =
     (case command video_file target_dir of
        Inl e \<Rightarrow> (Inl e, s)
      | Inr cmd \<Rightarrow>
          (let s1 = print (Removing (name video_file)) s;
               s2 = print (Command_arguments cmd) s1
           in case subprocess_run run cmd s2 of
                (Inl f, s3) \<Rightarrow> (Inl (raised f), s3)
              | (Inr result, s3) \<Rightarrow>
                  if returncode result \<noteq> 0
                  then (Inl (RuntimeError []), print (Process_failed (stderr result)) s3)
                  else remove_hun_audio_from_files run rest target_dir
                         (print (Removed (name video_file)) s3)))"

text \<open>Whether an error is a \<open>RuntimeError\<close> with the text \<open>x\<close> among its arguments.\<close>

definition runtime_error_carries :: "error \<Rightarrow> string \<Rightarrow> bool" where
  "runtime_error_carries e x = (case e of RuntimeError a \<Rightarrow> x \<in> set a | _ \<Rightarrow> False)"

section \<open>Inspection\<close>

definition get_file_data :: "runner \<Rightarrow> path \<Rightarrow> state \<Rightarrow> (error + string) \<times> state" where
  "get_file_data run video_file s =
     (case subprocess_run run (ffprobe_command video_file) s of
        (Inl f, s') \<Rightarrow> (Inl (raised f), s')
      | (Inr result, s') \<Rightarrow>
          (Inr (if returncode result = 0 then stdout result else []), s'))"


section \<open>JSON\<close>

text \<open>The Python values a JSON document decodes to. A dictionary is the list of its items,
  read with \<^const>\<open>map_of\<close>; a float is kept as the text of its literal.\<close>

datatype pyval =
    PNone
  | PBool bool
  | PInt int
  | PFloat string
  | PStr string
  | PList "pyval list"
  | PDict "(string \<times> pyval) list"

text \<open>
  \<open>json.loads\<close>, as \<open>JSONDecoder.decode\<close> runs it: skip white space, scan one value,
  skip white space, and fail unless the text ends there. The scanner of one value raises
  \<open>StopIteration\<close> when the index is at or beyond the end of the text, and \<open>decode\<close> turns
  that into \<open>JSONDecodeError\<close>. The grammar of values is the parameter \<open>scan\<close>: the value
  starting at an index inside the text and the index after it, or nothing.
\<close>

type_synonym scanner = "string \<Rightarrow> nat \<Rightarrow> (pyval \<times> nat) option"

text \<open>\<open>WHITESPACE.match(s, idx).end()\<close>: the index after the run of blanks, tabs, line
  feeds and carriage returns that starts at \<open>idx\<close>; a start beyond the text counts as its
  end.\<close>

definition WHITESPACE_end :: "string \<Rightarrow> nat \<Rightarrow> nat" where
  "WHITESPACE_end s idx =
     (let pos = min idx (length s)
      in pos + length (takeWhile (\<lambda>c. c \<in> set [CHR '' '', CHR 0x09, CHR 0x0A, CHR 0x0D])
                         (drop pos s)))"

definition scan_once :: "scanner \<Rightarrow> string \<Rightarrow> nat \<Rightarrow> (pyval \<times> nat) option" where
  "scan_once scan s idx = (if idx < length s then scan s idx else None)"

definition json_loads :: "scanner \<Rightarrow> string \<Rightarrow> error + pyval" where
  "json_loads scan s =
     (case scan_once scan s (WHITESPACE_end s 0) of
        None \<Rightarrow> Inl JSONDecodeError
      | Some (obj, end) \<Rightarrow>
          if WHITESPACE_end s end \<noteq> length s then Inl JSONDecodeError else Inr obj)"



section \<open>Configuration and the program\<close>

text \<open>The configuration file: its text, or nothing when the file does not exist.\<close>

definition load_json_from_file :: "scanner \<Rightarrow> string option \<Rightarrow> error + pyval" where
  "load_json_from_file scan file =
     (case file of
        None \<Rightarrow> Inl (OSError FileNotFoundError)
      | Some text \<Rightarrow> json_loads scan text)"

text \<open>\<open>v[k]\<close> for a string \<open>k\<close>: only a dictionary can be read so.\<close>

definition getitem :: "pyval \<Rightarrow> string \<Rightarrow> error + pyval" where
  "getitem v k =
     (case v of
        PDict items \<Rightarrow> (case map_of items k of None \<Rightarrow> Inl (KeyError k) | Some x \<Rightarrow> Inr x)
      | _ \<Rightarrow> Inl TypeError)"

text \<open>\<open>v + s\<close> for a string \<open>s\<close>, and \<open>Path(v)\<close>: both raise \<open>TypeError\<close> unless \<open>v\<close> is a
  string.\<close>

definition add_str :: "pyval \<Rightarrow> string \<Rightarrow> error + string" where
  "add_str v s = (case v of PStr x \<Rightarrow> Inr (x @ s) | _ \<Rightarrow> Inl TypeError)"

definition Path_of :: "pyval \<Rightarrow> error + path" where
  "Path_of v = (case v of PStr x \<Rightarrow> Inr (Path x) | _ \<Rightarrow> Inl TypeError)"

text \<open>\<open>f'{v}'\<close>: a string as it is; the text of any other value is the parameter
  \<open>str_of\<close>.\<close>

definition format_value :: "(pyval \<Rightarrow> string) \<Rightarrow> pyval \<Rightarrow> string" where
  "format_value str_of v = (case v of PStr x \<Rightarrow> x | _ \<Rightarrow> str_of v)"

definition pathsep :: string where
  "pathsep = '':''"

text \<open>The module's globals, after the statements above the function definitions.\<close>

record globals =
  ENV_PATH :: string
  SOURCE_PATH :: path
  TARGET_PATH :: path
  FILE_EXTENSION :: pyval

definition module_globals :: "scanner \<Rightarrow> string option \<Rightarrow> string option \<Rightarrow> error + globals" where
  "module_globals scan config_file env_PATH =
     (case load_json_from_file scan config_file of Inl e \<Rightarrow> Inl e | Inr CONFIG \<Rightarrow>
     (case getitem CONFIG ''ffmpeg_dir'' of Inl e \<Rightarrow> Inl e | Inr FFMPEG_DIR \<Rightarrow>
     (case getitem CONFIG ''source_dir'' of Inl e \<Rightarrow> Inl e | Inr VIDEO_SOURCE_DIR \<Rightarrow>
     (case getitem CONFIG ''target_dir'' of Inl e \<Rightarrow> Inl e | Inr VIDEO_TARGET_DIR \<Rightarrow>
     (case getitem CONFIG ''file_extension_filter'' of Inl e \<Rightarrow> Inl e | Inr ext \<Rightarrow>
     (case add_str FFMPEG_DIR pathsep of Inl e \<Rightarrow> Inl e | Inr prefix \<Rightarrow>
     (case env_PATH of None \<Rightarrow> Inl (KeyError ''PATH'') | Some old \<Rightarrow>
     (case Path_of VIDEO_SOURCE_DIR of Inl e \<Rightarrow> Inl e | Inr src \<Rightarrow>
     (case Path_of VIDEO_TARGET_DIR of Inl e \<Rightarrow> Inl e | Inr tgt \<Rightarrow>
        Inr \<lparr>ENV_PATH = prefix @ old, SOURCE_PATH = src, TARGET_PATH = tgt,
             FILE_EXTENSION = ext\<rparr>)))))))))"

text \<open>The main block: the default extension of \<open>get_video_files_from_path\<close> is the
  configured one.\<close>

definition main ::
  "(pyval \<Rightarrow> string) \<Rightarrow> globals \<Rightarrow> filesystem \<Rightarrow> runner \<Rightarrow> state \<Rightarrow> (error + unit) \<times> state" where
  "main str_of g fs run s =
     (let s1 = s\<lparr>environ_PATH := Some (ENV_PATH g)\<rparr>
      in case get_video_files_from_path fs (SOURCE_PATH g)
                (format_value str_of (FILE_EXTENSION g)) s1 of
           (Inl e, s2) \<Rightarrow> (Inl e, s2)
         | (Inr video_source_files, s2) \<Rightarrow>
             remove_hun_audio_from_files run video_source_files (TARGET_PATH g) s2)"

text \<open>A whole run: the module's top-level statements, then the main block.\<close>

definition program ::
  "scanner \<Rightarrow> (pyval \<Rightarrow> string) \<Rightarrow> string option \<Rightarrow> filesystem \<Rightarrow> runner \<Rightarrow> state
     \<Rightarrow> (error + unit) \<times> state" where
  "program scan str_of config_file fs run s =
     (case module_globals scan config_file (environ_PATH s) of
        Inl e \<Rightarrow> (Inl e, s)
      | Inr g \<Rightarrow> main str_of g fs run s)"

text \<open>The state a run starts in.\<close>

definition start :: "string option \<Rightarrow> state" where
  "start env_PATH = \<lparr>environ_PATH = env_PATH, listed = [], run_calls = [], printed = []\<rparr>"

text \<open>The four keys the module reads from the configuration, in the order it reads them.\<close>

definition required_keys :: "string list" where
  "required_keys = [''ffmpeg_dir'', ''source_dir'', ''target_dir'', ''file_extension_filter'']"

text \<open>Whether a decoded document is an object with the key \<open>k\<close>.\<close>

definition has_key :: "pyval \<Rightarrow> string \<Rightarrow> bool" where
  "has_key v k = (case v of PDict items \<Rightarrow> map_of items k \<noteq> None | _ \<Rightarrow> False)"

section \<open>Example inputs\<close>

text \<open>A directory \<open>/videos\<close> with two videos, a text file and a subdirectory holding a
  third video, and the same directory as the relative path \<open>videos\<close>.\<close>

definition example_fs :: filesystem where
  "example_fs p =
     (if p = ''/videos'' \<or> p = ''videos''
      then Some (Dir [''a.mkv'', ''B.MKV'', ''notes.txt'', ''sub''])
      else if p = ''/videos/sub'' \<or> p = ''videos/sub'' then Some (Dir [''c.mkv''])
      else if p = ''/out'' then Some (Dir [])
      else if p = ''/videos/a.mkv'' \<or> p = ''/videos/B.MKV'' \<or> p = ''/videos/notes.txt''
              \<or> p = ''/videos/sub/c.mkv''
      then Some File
      else None)"

text \<open>A runner whose second run (index 1) exits with code 1 and the text \<open>boom\<close> on its
  standard error, every other run with code 0; and a runner that always exits with 0.\<close>

definition example_runner :: runner where
  "example_runner n cmd =
     Inr \<lparr>returncode = (if n = 1 then 1 else 0), stdout = [],
          stderr = (if n = 1 then ''boom'' else [])\<rparr>"

definition ok_runner :: runner where
  "ok_runner n cmd = Inr \<lparr>returncode = 0, stdout = ''{}'', stderr = []\<rparr>"

definition example_files :: "path list" where
  "example_files = [Path ''/videos/a.mkv'', Path ''/videos/B.MKV'', Path ''/videos/c.mkv'']"

text \<open>Three probes: one that exits with code 1 after printing, one that exits with 0 and
  prints nothing, and one that exits with code 1 after writing bytes that are not text.\<close>

definition garbled_probe :: runner where
  "garbled_probe n cmd = Inl (Undecodable 1)"

definition failing_probe :: runner where
  "failing_probe n cmd = Inr \<lparr>returncode = 1, stdout = ''partial'', stderr = ''no such file''\<rparr>"

definition silent_probe :: runner where
  "silent_probe n cmd = Inr \<lparr>returncode = 0, stdout = [], stderr = []\<rparr>"

text \<open>A scanner that reads every text as one fixed document, and two documents: a
  complete configuration and one without \<open>source_dir\<close>.\<close>

definition const_scanner :: "pyval \<Rightarrow> scanner" where
  "const_scanner v s idx = Some (v, length s)"

definition full_config :: pyval where
  "full_config =
     PDict [(''ffmpeg_dir'', PStr ''/opt/ffmpeg''), (''source_dir'', PStr ''/missing''),
            (''target_dir'', PStr ''/out''), (''file_extension_filter'', PStr ''mkv'')]"

definition partial_config :: pyval where
  "partial_config =
     PDict [(''ffmpeg_dir'', PStr ''/opt/ffmpeg''), (''target_dir'', PStr ''/out''),
            (''file_extension_filter'', PStr ''mkv'')]"

section \<open>The inspection command\<close>

text \<open>
  C8. For every source file path, the inspection command is the probe tool's name, the
  flags \<open>-v error -show_entries stream=index,codec_type:stream_tags=language -of json\<close>
  and the path's text as the last argument.
\<close>

theorem ffprobe_command_vector:
  "ffprobe_command S =
     [''ffprobe'', ''-v'', ''error'', ''-show_entries'',
      ''stream=index,codec_type:stream_tags=language'', ''-of'', ''json'', str S]"
  by (simp add: ffprobe_command_def FFMPEG_INSPECT_COMMAND_HEAD_def)

section \<open>The removal command\<close>

lemma split_no_sep: "sep \<notin> set s \<Longrightarrow> split sep s = [s]"
  by (induction s) auto

lemma Path_component: "component c \<Longrightarrow> Path c = \<lparr>root = [], tail = [c]\<rparr>"
proof -
  assume c: "component c"
  then have ne: "c \<noteq> []" and nd: "c \<noteq> ''.''" and ns: "CHR ''/'' \<notin> set c"
    by (simp_all add: component_def)
  from ne ns have "take 1 c \<noteq> ''/''"
    by (cases c) auto
  then have "splitroot c = ([], c)"
    by (simp add: splitroot_def)
  with ne nd ns show ?thesis
    by (simp add: Path_def split_no_sep)
qed

lemma truediv_str_component:
  "component c \<Longrightarrow> truediv_str p c = \<lparr>root = root p, tail = tail p @ [c]\<rparr>"
  by (simp add: truediv_str_def truediv_def Path_component)

lemma last_item_parts: "tail S \<noteq> [] \<Longrightarrow> last_item (parts S) = Inr (name S)"
  by (simp add: last_item_def parts_def name_def)

lemma component_name_tail: "component (name S) \<Longrightarrow> tail S \<noteq> []"
  by (auto simp: component_def name_def)

text \<open>
  C2. For every source file path \<open>S\<close> whose name is a path component (every path of a file
  is one) and every output directory, the removal command is, in order: \<open>ffmpeg\<close>, \<open>-i\<close>,
  the text of \<open>S\<close>, the four \<open>-map\<close> arguments \<open>0:v\<close>, \<open>0:s\<close>, \<open>-0:a:0\<close>, \<open>0:a:1\<close>, the
  three pairs \<open>-c:v copy\<close>, \<open>-c:a copy\<close>, \<open>-c:s copy\<close>, and last the text of the output
  directory with the name of \<open>S\<close> as one more component.
\<close>

theorem removal_command_vector:
  assumes "component (name S)"
  shows "command S target =
           Inr [''ffmpeg'', ''-i'', str S,
                ''-map'', ''0:v'', ''-map'', ''0:s'', ''-map'', ''-0:a:0'', ''-map'', ''0:a:1'',
                ''-c:v'', ''copy'', ''-c:a'', ''copy'', ''-c:s'', ''copy'',
                str \<lparr>root = root target, tail = tail target @ [name S]\<rparr>]"
  using assms
  by (simp add: command_def last_item_parts component_name_tail truediv_str_component
      FFMPEG_REMOVE_HUN_AUDIO_COMMAND_P1_def FFMPEG_REMOVE_HUN_AUDIO_COMMAND_P2_def)

theorem removal_command_vector_witness:
  "component (name (Path ''/videos/a.mkv'')) \<and>
   command (Path ''/videos/a.mkv'') (Path ''/out'') =
     Inr [''ffmpeg'', ''-i'', ''/videos/a.mkv'',
          ''-map'', ''0:v'', ''-map'', ''0:s'', ''-map'', ''-0:a:0'', ''-map'', ''0:a:1'',
          ''-c:v'', ''copy'', ''-c:a'', ''copy'', ''-c:s'', ''copy'', ''/out/a.mkv'']"
proof -
  have c: "component (name (Path ''/videos/a.mkv''))"
    by code_simp
  have s1: "str (Path ''/videos/a.mkv'') = ''/videos/a.mkv''"
    by code_simp
  have s2: "str \<lparr>root = root (Path ''/out''), tail = tail (Path ''/out'') @ [name (Path ''/videos/a.mkv'')]\<rparr> = ''/out/a.mkv''"
    by code_simp
  show ?thesis
    using c removal_command_vector [OF c, of "Path ''/out''"] by (simp add: s1 s2)
qed

section \<open>The batch: one step\<close>

lemma remove_step_ok:
  assumes "command f t = Inr c" "run (length (run_calls s)) c = Inr r" "returncode r = 0"
  shows "remove_hun_audio_from_files run (f # rest) t s =
           remove_hun_audio_from_files run rest t
             (s\<lparr>run_calls := run_calls s @ [c],
                printed := printed s @ [Removing (name f), Command_arguments c, Removed (name f)]\<rparr>)"
  using assms by (simp add: subprocess_run_def print_def)

lemma remove_step_fail:
  assumes "command f t = Inr c" "run (length (run_calls s)) c = Inr r" "returncode r \<noteq> 0"
  shows "remove_hun_audio_from_files run (f # rest) t s =
           (Inl (RuntimeError []),
            s\<lparr>run_calls := run_calls s @ [c],
              printed := printed s @ [Removing (name f), Command_arguments c,
                                      Process_failed (stderr r)]\<rparr>)"
  using assms by (simp add: subprocess_run_def print_def)

section \<open>The batch stops at the first failure\<close>

text \<open>
  C3. For every list of files and every runner: when the run for the \<open>K\<close>-th file
  (\<open>1 \<le> K \<le> N\<close>) exits with a code other than 0 and the runs for the files before it exit
  with 0, the batch raises \<open>RuntimeError\<close>, and the runner has been called exactly \<open>K\<close>
  times, on the commands of the first \<open>K\<close> files in order: no later file is attempted.
\<close>

theorem batch_stops_at_first_failure:
  assumes "1 \<le> K" and "K \<le> length files"
    and "\<forall>i<K - 1. \<exists>c r. command (files ! i) target = Inr c
            \<and> run (length (run_calls s) + i) c = Inr r \<and> returncode r = 0"
    and "\<exists>c r. command (files ! (K - 1)) target = Inr c
            \<and> run (length (run_calls s) + (K - 1)) c = Inr r \<and> returncode r \<noteq> 0"
  shows "\<exists>s' cs. remove_hun_audio_from_files run files target s = (Inl (RuntimeError []), s')
           \<and> run_calls s' = run_calls s @ cs
           \<and> map (\<lambda>f. command f target) (take K files) = map Inr cs"
  using assms
proof (induction files arbitrary: K s)
  case Nil
  then show ?case by simp
next
  case (Cons f rest)
  show ?case
  proof (cases "K = 1")
    case True
    with Cons.prems(4) obtain c r where
      c: "command f target = Inr c" and r: "run (length (run_calls s)) c = Inr r"
      and nz: "returncode r \<noteq> 0"
      by auto
    let ?s = "s\<lparr>run_calls := run_calls s @ [c],
                printed := printed s @ [Removing (name f), Command_arguments c,
                                        Process_failed (stderr r)]\<rparr>"
    have "remove_hun_audio_from_files run (f # rest) target s = (Inl (RuntimeError []), ?s)"
      by (rule remove_step_fail [where run = run and s = s, OF c r nz])
    moreover have "run_calls ?s = run_calls s @ [c]"
      by simp
    moreover have "map (\<lambda>f. command f target) (take K (f # rest)) = map Inr [c]"
      using True c by simp
    ultimately show ?thesis
      by (intro exI [of _ ?s] exI [of _ "[c]"] conjI)
  next
    case False
    with Cons.prems(1) have K: "2 \<le> K" by simp
    then obtain K' where K': "K = Suc K'" and K'1: "1 \<le> K'"
      by (cases K) auto
    have "0 < K - 1" using K by simp
    from Cons.prems(3) [rule_format, OF this] obtain c r where
      c: "command f target = Inr c" and r: "run (length (run_calls s)) c = Inr r"
      and z: "returncode r = 0"
      by auto
    let ?s = "s\<lparr>run_calls := run_calls s @ [c],
                printed := printed s @ [Removing (name f), Command_arguments c, Removed (name f)]\<rparr>"
    have len: "length (run_calls ?s) = Suc (length (run_calls s))" by simp
    have p2: "K' \<le> length rest" using Cons.prems(2) K' by simp
    have p3: "\<forall>i<K' - 1. \<exists>c r. command (rest ! i) target = Inr c
            \<and> run (length (run_calls ?s) + i) c = Inr r \<and> returncode r = 0"
    proof (intro allI impI)
      fix i assume "i < K' - 1"
      then have "Suc i < K - 1" using K' by simp
      from Cons.prems(3) [rule_format, OF this]
      have "\<exists>c r. command ((f # rest) ! Suc i) target = Inr c
            \<and> run (length (run_calls s) + Suc i) c = Inr r \<and> returncode r = 0" .
      then show "\<exists>c r. command (rest ! i) target = Inr c
            \<and> run (length (run_calls ?s) + i) c = Inr r \<and> returncode r = 0"
        by simp
    qed
    have p4: "\<exists>c r. command (rest ! (K' - 1)) target = Inr c
            \<and> run (length (run_calls ?s) + (K' - 1)) c = Inr r \<and> returncode r \<noteq> 0"
    proof -
      have "(f # rest) ! (K - 1) = rest ! (K' - 1)" using K' K'1 by (cases K') auto
      moreover have "length (run_calls s) + (K - 1) = length (run_calls ?s) + (K' - 1)"
        using K' K'1 by simp
      ultimately show ?thesis using Cons.prems(4) by simp
    qed
    from Cons.IH [OF K'1 p2 p3 p4] obtain s' cs where
      res: "remove_hun_audio_from_files run rest target ?s = (Inl (RuntimeError []), s')"
      and calls: "run_calls s' = run_calls ?s @ cs"
      and cmds: "map (\<lambda>f. command f target) (take K' rest) = map Inr cs"
      by blast
    have "remove_hun_audio_from_files run (f # rest) target s =
            remove_hun_audio_from_files run rest target ?s"
      by (rule remove_step_ok [where run = run and s = s, OF c r z])
    then have "remove_hun_audio_from_files run (f # rest) target s = (Inl (RuntimeError []), s')"
      by (simp only: res)
    moreover have "run_calls s' = run_calls s @ (c # cs)"
      using calls by simp
    moreover have "map (\<lambda>f. command f target) (take K (f # rest)) = map Inr (c # cs)"
      using cmds c K' by simp
    ultimately show ?thesis
      by (intro exI [of _ s'] exI [of _ "c # cs"] conjI)
  qed
qed

theorem batch_stops_at_first_failure_witness:
  "(1::nat) \<le> 2 \<and> 2 \<le> length example_files \<and>
   (\<exists>s' cs. remove_hun_audio_from_files example_runner example_files (Path ''/out'') (start None)
                = (Inl (RuntimeError []), s')
      \<and> run_calls s' = run_calls (start None) @ cs
      \<and> map (\<lambda>f. command f (Path ''/out'')) (take 2 example_files) = map Inr cs)"
proof -
  have h1: "(1::nat) \<le> 2" by simp
  have h2: "2 \<le> length example_files" by (simp add: example_files_def)
  have c0: "command (example_files ! 0) (Path ''/out'') =
              Inr [''ffmpeg'', ''-i'', ''/videos/a.mkv'',
                   ''-map'', ''0:v'', ''-map'', ''0:s'', ''-map'', ''-0:a:0'', ''-map'', ''0:a:1'',
                   ''-c:v'', ''copy'', ''-c:a'', ''copy'', ''-c:s'', ''copy'', ''/out/a.mkv'']"
    by code_simp
  have c1: "command (example_files ! 1) (Path ''/out'') =
              Inr [''ffmpeg'', ''-i'', ''/videos/B.MKV'',
                   ''-map'', ''0:v'', ''-map'', ''0:s'', ''-map'', ''-0:a:0'', ''-map'', ''0:a:1'',
                   ''-c:v'', ''copy'', ''-c:a'', ''copy'', ''-c:s'', ''copy'', ''/out/B.MKV'']"
    by code_simp
  have h3: "\<forall>i<(2::nat) - 1. \<exists>c r. command (example_files ! i) (Path ''/out'') = Inr c
            \<and> example_runner (length (run_calls (start None)) + i) c = Inr r \<and> returncode r = 0"
    using c0 by (simp add: example_runner_def start_def)
  have h4: "\<exists>c r. command (example_files ! ((2::nat) - 1)) (Path ''/out'') = Inr c
            \<and> example_runner (length (run_calls (start None)) + (2 - 1)) c = Inr r
            \<and> returncode r \<noteq> 0"
    using c1 by (simp add: example_runner_def start_def)
  show ?thesis
    using h1 h2 batch_stops_at_first_failure [OF h1 h2 h3 h4] by simp
qed

section \<open>The batch succeeds when every run does\<close>

text \<open>
  C5. For every list of files and every runner: when the run for each file exits with
  code 0, the batch returns without an error, and the runner has been called exactly once
  for each file, on the files' commands in the order of the list.
\<close>

theorem batch_all_succeed:
  assumes "\<forall>i<length files. \<exists>c r. command (files ! i) target = Inr c
            \<and> run (length (run_calls s) + i) c = Inr r \<and> returncode r = 0"
  shows "\<exists>s' cs. remove_hun_audio_from_files run files target s = (Inr (), s')
           \<and> run_calls s' = run_calls s @ cs
           \<and> map (\<lambda>f. command f target) files = map Inr cs"
  using assms
proof (induction files arbitrary: s)
  case Nil
  then show ?case by simp
next
  case (Cons f rest)
  have "0 < length (f # rest)" by simp
  from Cons.prems [rule_format, OF this] obtain c r where
    c: "command f target = Inr c" and r: "run (length (run_calls s)) c = Inr r"
    and z: "returncode r = 0"
    by auto
  let ?s = "s\<lparr>run_calls := run_calls s @ [c],
              printed := printed s @ [Removing (name f), Command_arguments c, Removed (name f)]\<rparr>"
  have p: "\<forall>i<length rest. \<exists>c r. command (rest ! i) target = Inr c
            \<and> run (length (run_calls ?s) + i) c = Inr r \<and> returncode r = 0"
  proof (intro allI impI)
    fix i assume "i < length rest"
    then have "Suc i < length (f # rest)" by simp
    from Cons.prems [rule_format, OF this]
    show "\<exists>c r. command (rest ! i) target = Inr c
            \<and> run (length (run_calls ?s) + i) c = Inr r \<and> returncode r = 0"
      by simp
  qed
  from Cons.IH [OF p] obtain s' cs where
    res: "remove_hun_audio_from_files run rest target ?s = (Inr (), s')"
    and calls: "run_calls s' = run_calls ?s @ cs"
    and cmds: "map (\<lambda>f. command f target) rest = map Inr cs"
    by blast
  have "remove_hun_audio_from_files run (f # rest) target s =
          remove_hun_audio_from_files run rest target ?s"
    by (rule remove_step_ok [where run = run and s = s, OF c r z])
  then have "remove_hun_audio_from_files run (f # rest) target s = (Inr (), s')"
    by (simp only: res)
  moreover have "run_calls s' = run_calls s @ (c # cs)"
    using calls by simp
  moreover have "map (\<lambda>f. command f target) (f # rest) = map Inr (c # cs)"
    using cmds c by simp
  ultimately show ?case
    by (intro exI [of _ s'] exI [of _ "c # cs"] conjI)
qed

section \<open>What the abort tells the caller\<close>

lemma raised_not_RuntimeError: "raised f \<noteq> RuntimeError a"
  by (cases f) simp_all

lemma command_Inl: "command f t = Inl e \<Longrightarrow> e = IndexError"
  by (auto simp: command_def last_item_def split: if_splits)

text \<open>
  C4, as stated, fails: in the batch over three files whose second run exits with code 1
  and \<open>boom\<close> on its standard error, the error raised is a \<open>RuntimeError\<close> without
  arguments. It carries neither the name \<open>B.MKV\<close> of the file nor the text \<open>boom\<close>; that
  text is in the last line printed.
\<close>

theorem abort_error_has_no_arguments:
  "fst (remove_hun_audio_from_files example_runner example_files (Path ''/out'') (start None))
     = Inl (RuntimeError [])
   \<and> \<not> runtime_error_carries (RuntimeError []) ''B.MKV''
   \<and> \<not> runtime_error_carries (RuntimeError []) ''boom''
   \<and> last (printed (snd (remove_hun_audio_from_files example_runner example_files
        (Path ''/out'') (start None)))) = Process_failed ''boom''"
  by code_simp

text \<open>
  C4, amended. Whenever the batch raises \<open>RuntimeError\<close>, the error has no arguments, and
  it follows a run of the command of one of the files that exited with a code other than
  0: that run is the last call of the runner, and the last three lines printed are the
  announcement with that file's name, its command, and the failure line with the captured
  standard error of that run.
\<close>

theorem abort_prints_name_and_stderr:
  assumes "remove_hun_audio_from_files run files target s = (Inl (RuntimeError a), s')"
  shows "a = [] \<and>
         (\<exists>f c r calls lines. f \<in> set files \<and> command f target = Inr c
            \<and> run_calls s' = calls @ [c] \<and> run (length calls) c = Inr r
            \<and> returncode r \<noteq> 0
            \<and> printed s' = lines @ [Removing (name f), Command_arguments c,
                                     Process_failed (stderr r)])"
  using assms
proof (induction files arbitrary: s)
  case Nil
  then show ?case by simp
next
  case (Cons f rest)
  show ?case
  proof (cases "command f target")
    case (Inl e)
    with Cons.prems command_Inl [OF Inl] show ?thesis by simp
  next
    case (Inr c)
    show ?thesis
    proof (cases "run (length (run_calls s)) c")
      case (Inl oe)
      with Cons.prems Inr show ?thesis
        by (simp add: subprocess_run_def print_def raised_not_RuntimeError)
    next
      case r: (Inr r)
      show ?thesis
      proof (cases "returncode r = 0")
        case True
        let ?s = "s\<lparr>run_calls := run_calls s @ [c],
                    printed := printed s @ [Removing (name f), Command_arguments c,
                                            Removed (name f)]\<rparr>"
        have "remove_hun_audio_from_files run (f # rest) target s =
                remove_hun_audio_from_files run rest target ?s"
          by (rule remove_step_ok [where run = run and s = s, OF Inr r True])
        with Cons.prems have
          "remove_hun_audio_from_files run rest target ?s = (Inl (RuntimeError a), s')"
          by (simp only:)
        from Cons.IH [OF this] show ?thesis
          by (metis list.set_intros(2))
      next
        case False
        let ?s = "s\<lparr>run_calls := run_calls s @ [c],
                    printed := printed s @ [Removing (name f), Command_arguments c,
                                            Process_failed (stderr r)]\<rparr>"
        have "remove_hun_audio_from_files run (f # rest) target s = (Inl (RuntimeError []), ?s)"
          by (rule remove_step_fail [where run = run and s = s, OF Inr r False])
        with Cons.prems have a: "a = []" and s': "s' = ?s"
          by simp_all
        have "f \<in> set (f # rest)" by simp
        moreover have "run_calls s' = run_calls s @ [c]" using s' by simp
        moreover have "printed s' = printed s @ [Removing (name f), Command_arguments c,
                                     Process_failed (stderr r)]" using s' by simp
        ultimately show ?thesis
          using a Inr r False by blast
      qed
    qed
  qed
qed

section \<open>The batch on the example inputs\<close>

lemma command_defined: "tail f \<noteq> [] \<Longrightarrow> \<exists>c. command f t = Inr c"
  by (simp add: command_def last_item_def parts_def)

theorem batch_all_succeed_witness:
  "\<exists>s' cs. remove_hun_audio_from_files ok_runner example_files (Path ''/out'') (start None)
              = (Inr (), s')
     \<and> run_calls s' = run_calls (start None) @ cs
     \<and> map (\<lambda>f. command f (Path ''/out'')) example_files = map Inr cs"
proof -
  have tails: "list_all (\<lambda>f. tail f \<noteq> []) example_files"
    by code_simp
  have h: "\<forall>i<length example_files. \<exists>c r. command (example_files ! i) (Path ''/out'') = Inr c
            \<and> ok_runner (length (run_calls (start None)) + i) c = Inr r \<and> returncode r = 0"
  proof (intro allI impI)
    fix i assume "i < length example_files"
    with tails have "tail (example_files ! i) \<noteq> []"
      by (simp add: list_all_length)
    from command_defined [OF this] obtain c where
      "command (example_files ! i) (Path ''/out'') = Inr c" by blast
    then show "\<exists>c r. command (example_files ! i) (Path ''/out'') = Inr c
            \<and> ok_runner (length (run_calls (start None)) + i) c = Inr r \<and> returncode r = 0"
      by (simp add: ok_runner_def)
  qed
  show ?thesis
    using batch_all_succeed [OF h] .
qed

theorem abort_prints_name_and_stderr_witness:
  "remove_hun_audio_from_files example_runner example_files (Path ''/out'') (start None)
     = (Inl (RuntimeError []),
        snd (remove_hun_audio_from_files example_runner example_files (Path ''/out'')
               (start None)))
   \<and> (\<exists>f c r calls lines. f \<in> set example_files \<and> command f (Path ''/out'') = Inr c
        \<and> run_calls (snd (remove_hun_audio_from_files example_runner example_files
                             (Path ''/out'') (start None))) = calls @ [c]
        \<and> example_runner (length calls) c = Inr r
        \<and> returncode r \<noteq> 0
        \<and> printed (snd (remove_hun_audio_from_files example_runner example_files
                           (Path ''/out'') (start None)))
            = lines @ [Removing (name f), Command_arguments c, Process_failed (stderr r)])"
proof -
  have f: "fst (remove_hun_audio_from_files example_runner example_files (Path ''/out'')
                  (start None)) = Inl (RuntimeError [])"
    by code_simp
  have h: "remove_hun_audio_from_files example_runner example_files (Path ''/out'') (start None)
     = (Inl (RuntimeError []),
        snd (remove_hun_audio_from_files example_runner example_files (Path ''/out'')
               (start None)))"
    using f by (simp add: prod_eq_iff)
  show ?thesis
    using h abort_prints_name_and_stderr [OF h] by (intro conjI) simp_all
qed

section \<open>A failed inspection\<close>

text \<open>
  C9, as stated, fails: the probe that exits with code 1 after writing bytes that are not
  text makes \<open>get_file_data\<close> raise \<open>UnicodeDecodeError\<close>, where the claim has it return the
  empty string without an error.
\<close>

theorem undecodable_inspection_raises:
  "exit_code (garbled_probe 0 (ffprobe_command (Path ''/videos/a.mkv''))) = Some 1
   \<and> fst (get_file_data garbled_probe (Path ''/videos/a.mkv'') (start None))
       = Inl UnicodeDecodeError"
  by code_simp

text \<open>
  C9, amended. For every file whose inspection command exits with a code other than 0 and
  whose captured output is text, so that \<open>subprocess.run\<close> returns a result,
  \<open>get_file_data\<close> returns the empty string and raises nothing; the only effect is the call
  of the runner, so the captured standard error is dropped. The result is the one of a run
  that exits with 0 and prints nothing, so a caller cannot tell the two apart.
\<close>

theorem failed_inspection_is_empty_text:
  assumes "run (length (run_calls s)) (ffprobe_command video_file) = Inr r"
    and "returncode r \<noteq> 0"
    and "run' (length (run_calls s)) (ffprobe_command video_file) = Inr r'"
    and "returncode r' = 0" and "stdout r' = []"
  shows "get_file_data run video_file s =
           (Inr [], s\<lparr>run_calls := run_calls s @ [ffprobe_command video_file]\<rparr>)
         \<and> get_file_data run' video_file s = get_file_data run video_file s"
  using assms by (simp add: get_file_data_def subprocess_run_def)

theorem failed_inspection_is_empty_text_witness:
  "get_file_data failing_probe (Path ''/videos/a.mkv'') (start None) =
     (Inr [], (start None)\<lparr>run_calls := run_calls (start None) @ [ffprobe_command (Path ''/videos/a.mkv'')]\<rparr>)
   \<and> get_file_data silent_probe (Path ''/videos/a.mkv'') (start None)
       = get_file_data failing_probe (Path ''/videos/a.mkv'') (start None)"
proof -
  let ?r = "\<lparr>returncode = 1, stdout = ''partial'', stderr = ''no such file''\<rparr>"
  let ?r' = "\<lparr>returncode = 0, stdout = [], stderr = []\<rparr>"
  have h1: "failing_probe (length (run_calls (start None))) (ffprobe_command (Path ''/videos/a.mkv'')) = Inr ?r"
    by (simp add: failing_probe_def)
  have h2: "returncode ?r \<noteq> 0" by simp
  have h3: "silent_probe (length (run_calls (start None))) (ffprobe_command (Path ''/videos/a.mkv'')) = Inr ?r'"
    by (simp add: silent_probe_def)
  have h4: "returncode ?r' = 0" by simp
  have h5: "stdout ?r' = []" by simp
  show ?thesis
    using failed_inspection_is_empty_text
      [where run = failing_probe and run' = silent_probe and s = "start None", OF h1 h2 h3 h4 h5] .
qed


section \<open>The debugging pass\<close>











section \<open>Configuration\<close>

lemma module_globals_missing_key:
  assumes "load_json_from_file scan config_file = Inr CONFIG"
    and "k \<in> set required_keys" and "\<not> has_key CONFIG k"
  shows "module_globals scan config_file env_PATH = Inl TypeError
         \<or> (\<exists>k'. k' \<in> set required_keys \<and> \<not> has_key CONFIG k'
               \<and> module_globals scan config_file env_PATH = Inl (KeyError k'))"
proof (cases "\<exists>items. CONFIG = PDict items")
  case False
  then have "getitem CONFIG ''ffmpeg_dir'' = Inl TypeError"
    by (auto simp: getitem_def split: pyval.splits)
  with assms(1) show ?thesis
    by (simp add: module_globals_def)
next
  case True
  then obtain items where C: "CONFIG = PDict items" by blast
  have g: "\<And>k. getitem CONFIG k = (case map_of items k of None \<Rightarrow> Inl (KeyError k) | Some x \<Rightarrow> Inr x)"
    by (simp add: C getitem_def)
  have h: "\<And>k. has_key CONFIG k = (map_of items k \<noteq> None)"
    by (simp add: C has_key_def)
  from assms(2,3) have
    "map_of items ''ffmpeg_dir'' = None \<or> map_of items ''source_dir'' = None
     \<or> map_of items ''target_dir'' = None \<or> map_of items ''file_extension_filter'' = None"
    by (auto simp: required_keys_def h)
  then have "\<exists>k'. k' \<in> set required_keys \<and> map_of items k' = None
               \<and> module_globals scan config_file env_PATH = Inl (KeyError k')"
    using assms(1)
    by (cases "map_of items ''ffmpeg_dir''"; cases "map_of items ''source_dir''";
        cases "map_of items ''target_dir''"; cases "map_of items ''file_extension_filter''")
       (auto simp: module_globals_def g required_keys_def)
  then show ?thesis by (auto simp: h)
qed

text \<open>
  C6. For every configuration document that decodes but is not an object with all four
  required keys, the module fails while reading the configuration: with \<open>KeyError\<close> for a
  required key the document lacks, or with \<open>TypeError\<close> when the document is no object.
  The run ends there, with no effect: no directory is listed and no process is run.
\<close>

theorem missing_key_stops_before_enumeration:
  assumes "load_json_from_file scan config_file = Inr CONFIG"
    and "k \<in> set required_keys" and "\<not> has_key CONFIG k"
  shows "\<exists>e. program scan str_of config_file fs run s = (Inl e, s)
           \<and> (e = TypeError
               \<or> (\<exists>k'. k' \<in> set required_keys \<and> \<not> has_key CONFIG k' \<and> e = KeyError k'))"
  using module_globals_missing_key [OF assms, of "environ_PATH s"]
  by (auto simp: program_def)

theorem missing_key_stops_before_enumeration_witness:
  "load_json_from_file (const_scanner partial_config) (Some ''{}'') = Inr partial_config
   \<and> ''source_dir'' \<in> set required_keys \<and> \<not> has_key partial_config ''source_dir''
   \<and> (\<exists>e. program (const_scanner partial_config) (\<lambda>v. []) (Some ''{}'') example_fs ok_runner
             (start (Some ''/usr/bin'')) = (Inl e, start (Some ''/usr/bin''))
        \<and> (e = TypeError
            \<or> (\<exists>k'. k' \<in> set required_keys \<and> \<not> has_key partial_config k' \<and> e = KeyError k')))"
proof -
  have h1: "load_json_from_file (const_scanner partial_config) (Some ''{}'') = Inr partial_config"
    by code_simp
  have h2: "''source_dir'' \<in> set required_keys"
    by (simp add: required_keys_def)
  have h3: "\<not> has_key partial_config ''source_dir''"
    by code_simp
  show ?thesis
    using h1 h2 h3 missing_key_stops_before_enumeration [OF h1 h2 h3]
    by (intro conjI) simp_all
qed

text \<open>
  C7. For every configuration that loads and whose source directory does not exist, the
  run fails with \<open>FileNotFoundError\<close> when it lists that directory; the runner has not been
  called, so no removal or inspection process is ever run.
\<close>

theorem missing_source_dir_stops_before_any_process:
  assumes "module_globals scan config_file (environ_PATH s) = Inr g"
    and "fs (str (SOURCE_PATH g)) = None"
  shows "program scan str_of config_file fs run s =
           (Inl (OSError FileNotFoundError),
            s\<lparr>environ_PATH := Some (ENV_PATH g),
              listed := listed s @ [str (SOURCE_PATH g)]\<rparr>)
         \<and> run_calls (snd (program scan str_of config_file fs run s)) = run_calls s"
  using assms
  by (simp add: program_def main_def get_video_files_from_path_def iterdir_def)

theorem missing_source_dir_stops_before_any_process_witness:
  "program (const_scanner full_config) (\<lambda>v. []) (Some ''{}'') example_fs ok_runner
     (start (Some ''/usr/bin'')) =
     (Inl (OSError FileNotFoundError),
      \<lparr>environ_PATH = Some ''/opt/ffmpeg:/usr/bin'', listed = [''/missing''],
        run_calls = [], printed = []\<rparr>)"
proof -
  let ?g = "\<lparr>ENV_PATH = ''/opt/ffmpeg:/usr/bin'', SOURCE_PATH = Path ''/missing'',
             TARGET_PATH = Path ''/out'', FILE_EXTENSION = PStr ''mkv''\<rparr>"
  have h1: "module_globals (const_scanner full_config) (Some ''{}'')
              (environ_PATH (start (Some ''/usr/bin''))) = Inr ?g"
    by code_simp
  have h2: "example_fs (str (SOURCE_PATH ?g)) = None"
    by code_simp
  have s: "str (Path ''/missing'') = ''/missing''"
    by code_simp
  show ?thesis
    using missing_source_dir_stops_before_any_process
      [where fs = example_fs and s = "start (Some ''/usr/bin'')", OF h1 h2]
    by (simp add: start_def s)
qed

section \<open>The file enumerator\<close>

text \<open>
  C1 does not hold of the code, in two ways. With the filter \<open>MKV\<close>, the directory
  \<open>/videos\<close> of the example yields nothing, where the children \<open>a.mkv\<close> and \<open>B.MKV\<close> have
  that extension but for case: the code lowers the suffix of the file and compares it
  with the filter as it is. With the relative directory \<open>videos\<close> and the filter \<open>mkv\<close>, the
  paths returned are \<open>videos/videos/a.mkv\<close> and \<open>videos/videos/B.MKV\<close>, not the children
  \<open>videos/a.mkv\<close> and \<open>videos/B.MKV\<close>: the code joins the directory to paths that already
  start with it.
\<close>

theorem enumeration_differs_from_specification:
  "fst (get_video_files_from_path example_fs (Path ''/videos'') ''MKV'' (start None)) = Inr []
   \<and> fst (spec_video_files example_fs (Path ''/videos'') ''MKV'' (start None))
       = Inr [Path ''/videos/a.mkv'', Path ''/videos/B.MKV'']
   \<and> fst (get_video_files_from_path example_fs (Path ''videos'') ''mkv'' (start None))
       = Inr [Path ''videos/videos/a.mkv'', Path ''videos/videos/B.MKV'']
   \<and> fst (spec_video_files example_fs (Path ''videos'') ''mkv'' (start None))
       = Inr [Path ''videos/a.mkv'', Path ''videos/B.MKV'']"
  by code_simp

text \<open>
  Where the filter has no capital letter and the directory is rooted (or is the empty
  relative path), the code does return the children the specification describes: neither
  the contents of a subdirectory nor any other path.
\<close>

lemma lower_dot:
  "lower extension = extension \<Longrightarrow> lower (CHR ''.'' # extension) = CHR ''.'' # extension"
  by (simp add: lower_def chr_lower_def)

lemma truediv_child:
  "root p \<noteq> [] \<or> tail p = [] \<Longrightarrow> truediv p (p\<lparr>tail := tail p @ [n]\<rparr>) = p\<lparr>tail := tail p @ [n]\<rparr>"
  by (auto simp: truediv_def)

lemma get_video_files_from_path_refines:
  assumes "lower extension = extension" and "root dir_path \<noteq> [] \<or> tail dir_path = []"
  shows "get_video_files_from_path fs dir_path extension s
           = spec_video_files fs dir_path extension s"
proof -
  have "map (truediv dir_path) (filter P (map (\<lambda>n. dir_path\<lparr>tail := tail dir_path @ [n]\<rparr>) names))
          = filter P (map (\<lambda>n. dir_path\<lparr>tail := tail dir_path @ [n]\<rparr>) names)" for P names
    using truediv_child [OF assms(2)] by (induction names) auto
  then show ?thesis
    by (auto simp: get_video_files_from_path_def spec_video_files_def iterdir_def
        lower_dot [OF assms(1)] split: option.splits entry.splits)
qed

end
